theory Spec2Isabelle
  imports Main "HOL-Library.Char_ord" "HOL-Library.List_Lexorder"
begin

section \<open>Python values, exceptions and strings\<close>

text \<open>
  The observation ticket creator is a Python script. Its functions are embedded as HOL
  functions over an explicit state (the widgets and globals of the script, the files on
  disk and a log of the network requests). A raised exception is the \<open>Inl\<close> branch of a
  sum; the exception aborts the function, as in Python.
\<close>

datatype error =
    ValueError | KeyError | IndexError | UnboundLocalError
  | FileNotFoundError | OverflowError | RequestException | ParserError

definition e_bind :: "error + 'a \<Rightarrow> ('a \<Rightarrow> error + 'b) \<Rightarrow> error + 'b" where
  "e_bind m f = (case m of Inl e \<Rightarrow> Inl e | Inr v \<Rightarrow> f v)"

text \<open>\<open>xs[i]\<close> on a Python list, for a non-negative literal index.\<close>

definition index :: "'a list \<Rightarrow> nat \<Rightarrow> error + 'a" where
  "index xs i = (if i < length xs then Inr (xs ! i) else Inl IndexError)"

subsection \<open>Characters\<close>

text \<open>
  Strings are lists of 8-bit characters; the case conversions below are those of Python
  on ASCII letters (characters outside ASCII are left unchanged by the model).
\<close>

definition upper_letters :: string where
  "upper_letters = ''ABCDEFGHIJKLMNOPQRSTUVWXYZ''"

definition lower_letters :: string where
  "lower_letters = ''abcdefghijklmnopqrstuvwxyz''"

definition lower_char :: "char \<Rightarrow> char" where
  "lower_char c = (case map_of (zip upper_letters lower_letters) c of Some d \<Rightarrow> d | None \<Rightarrow> c)"

definition upper_char :: "char \<Rightarrow> char" where
  "upper_char c = (case map_of (zip lower_letters upper_letters) c of Some d \<Rightarrow> d | None \<Rightarrow> c)"

definition lower :: "string \<Rightarrow> string" where
  "lower s = map lower_char s"

definition upper :: "string \<Rightarrow> string" where
  "upper s = map upper_char s"

definition is_digit :: "char \<Rightarrow> bool" where
  "is_digit c = (c \<in> set ''0123456789'')"

definition digit_val :: "char \<Rightarrow> nat" where
  "digit_val c = of_char c - 48"

definition digit_char :: "nat \<Rightarrow> char" where
  "digit_char n = ''0123456789'' ! (n mod 10)"

text \<open>The characters that \<open>str.strip()\<close> removes (ASCII white space).\<close>

definition is_space :: "char \<Rightarrow> bool" where
  "is_space c = (c \<in> set [CHR '' '', CHR 0x09, CHR 0x0A, CHR 0x0B, CHR 0x0C, CHR 0x0D,
                           CHR 0x1C, CHR 0x1D, CHR 0x1E, CHR 0x1F])"

definition strip :: "string \<Rightarrow> string" where
  "strip s = rev (dropWhile is_space (rev (dropWhile is_space s)))"

subsection \<open>\<open>str.replace\<close>, \<open>str.split\<close>, \<open>str.join\<close>\<close>

definition startswith :: "string \<Rightarrow> string \<Rightarrow> bool" where
  "startswith s p = (take (length p) s = p)"

text \<open>
  \<open>s.replace(old, new)\<close> and \<open>s.split(sep)\<close> scan from the left and never overlap
  two occurrences. The script only passes non-empty \<open>old\<close> and \<open>sep\<close>.
\<close>

fun replace :: "string \<Rightarrow> string \<Rightarrow> string \<Rightarrow> string" where
  "replace old new [] = []"
| "replace old new (c # cs) =
     (if old \<noteq> [] \<and> startswith (c # cs) old
      then new @ replace old new (drop (length old - 1) cs)
      else c # replace old new cs)"

fun split :: "string \<Rightarrow> string \<Rightarrow> string list" where
  "split sep [] = [[]]"
| "split sep (c # cs) =
     (if sep \<noteq> [] \<and> startswith (c # cs) sep
      then [] # split sep (drop (length sep - 1) cs)
      else (let r = split sep cs in (c # hd r) # tl r))"

fun join :: "string \<Rightarrow> string list \<Rightarrow> string" where
  "join sep [] = []"
| "join sep [x] = x"
| "join sep (x # y # ys) = x @ sep @ join sep (y # ys)"

subsection \<open>\<open>json.dumps\<close> of a list of strings\<close>

definition hex_digit :: "nat \<Rightarrow> char" where
  "hex_digit n = ''0123456789abcdef'' ! (n mod 16)"

text \<open>
  \<open>json.dumps\<close> with its defaults (\<open>ensure_ascii=True\<close>): the quote and the backslash are
  escaped, the usual control characters have short escapes, everything else outside
  \<open>' '..'~'\<close> becomes \<open>\uXXXX\<close>.
\<close>

definition json_escape_char :: "char \<Rightarrow> string" where
  "json_escape_char c =
     (if c = CHR 0x22 then [CHR 0x5C, CHR 0x22]
      else if c = CHR 0x5C then [CHR 0x5C, CHR 0x5C]
      else if c = CHR 0x0A then [CHR 0x5C, CHR ''n'']
      else if c = CHR 0x0D then [CHR 0x5C, CHR ''r'']
      else if c = CHR 0x09 then [CHR 0x5C, CHR ''t'']
      else if c = CHR 0x0C then [CHR 0x5C, CHR ''f'']
      else if c = CHR 0x08 then [CHR 0x5C, CHR ''b'']
      else if (32::nat) \<le> of_char c \<and> of_char c \<le> (126::nat) then [c]
      else [CHR 0x5C, CHR ''u'', CHR ''0'', CHR ''0'',
            hex_digit (of_char c div 16), hex_digit (of_char c)])"

definition json_string :: "string \<Rightarrow> string" where
  "json_string s = [CHR 0x22] @ concat (map json_escape_char s) @ [CHR 0x22]"

definition json_dumps :: "string list \<Rightarrow> string" where
  "json_dumps xs = ''['' @ join '', '' (map json_string xs) @ '']''"

subsection \<open>\<open>str.splitlines\<close> and the lines of a text file\<close>

definition is_linebreak :: "char \<Rightarrow> bool" where
  "is_linebreak c = (c \<in> set [CHR 0x0A, CHR 0x0D, CHR 0x0B, CHR 0x0C, CHR 0x1C, CHR 0x1D, CHR 0x1E])"

fun splitlines_from :: "string \<Rightarrow> string \<Rightarrow> string list" where
  "splitlines_from acc [] = (if acc = [] then [] else [rev acc])"
| "splitlines_from acc [c] = (if is_linebreak c then [rev acc] else [rev (c # acc)])"
| "splitlines_from acc (c # d # cs) =
     (if c = CHR 0x0D \<and> d = CHR 0x0A then rev acc # splitlines_from [] cs
      else if is_linebreak c then rev acc # splitlines_from [] (d # cs)
      else splitlines_from (c # acc) (d # cs))"

definition splitlines :: "string \<Rightarrow> string list" where
  "splitlines s = splitlines_from [] s"

text \<open>Iterating over a file opened in text mode: the pieces between newlines, without an
  empty piece after a final newline.\<close>

definition file_lines :: "string \<Rightarrow> string list" where
  "file_lines s = (let ps = split [CHR 0x0A] s in if last ps = [] then butlast ps else ps)"

subsection \<open>\<open>int()\<close> and \<open>str()\<close> of integers\<close>

function str_nat :: "nat \<Rightarrow> string" where
  "str_nat n = (if n < 10 then [digit_char n] else str_nat (n div 10) @ [digit_char n])"
  by pat_completeness auto
termination
  by (relation "measure id") auto

declare str_nat.simps [simp del]

definition str_int :: "int \<Rightarrow> string" where
  "str_int i = (if i < 0 then CHR ''-'' # str_nat (nat (- i)) else str_nat (nat i))"

text \<open>
  \<open>int(s)\<close> in base 10: white space around the literal is ignored, a sign is allowed, and
  single underscores may separate digits.
\<close>

fun digits_ok :: "string \<Rightarrow> bool" where
  "digits_ok [] = False"
| "digits_ok [c] = is_digit c"
| "digits_ok (c # d # cs) =
     (is_digit c \<and> (if d = CHR ''_'' then digits_ok cs else digits_ok (d # cs)))"

definition nat_of_digits :: "string \<Rightarrow> nat" where
  "nat_of_digits s = foldl (\<lambda>a c. 10 * a + digit_val c) 0 s"

definition py_int :: "string \<Rightarrow> error + int" where
  "py_int s =
     (let t = strip s;
          neg = (t \<noteq> [] \<and> hd t = CHR ''-'');
          body = (if t \<noteq> [] \<and> hd t \<in> set ''+-'' then tl t else t)
      in if digits_ok body
         then Inr ((if neg then - 1 else 1) * int (nat_of_digits (filter (\<lambda>c. c \<noteq> CHR ''_'') body)))
         else Inl ValueError)"

subsection \<open>Dates and clock times\<close>

text \<open>
  A \<open>datetime.date\<close>. Python keeps the year within 1..9999 and raises OverflowError when
  an addition leaves that range.
\<close>

datatype date = Date (year: nat) (month: nat) (day: nat)

definition is_leap :: "nat \<Rightarrow> bool" where
  "is_leap y = (y mod 4 = 0 \<and> (y mod 100 \<noteq> 0 \<or> y mod 400 = 0))"

definition days_in_month :: "nat \<Rightarrow> nat \<Rightarrow> nat" where
  "days_in_month y m =
     (if m = 2 then (if is_leap y then 29 else 28)
      else if m \<in> {4, 6, 9, 11} then 30 else 31)"

definition valid_date :: "date \<Rightarrow> bool" where
  "valid_date d = (1 \<le> year d \<and> year d \<le> 9999 \<and> 1 \<le> month d \<and> month d \<le> 12
                   \<and> 1 \<le> day d \<and> day d \<le> days_in_month (year d) (month d))"

text \<open>\<open>d + timedelta(days=1)\<close> and \<open>d - timedelta(days=1)\<close>.\<close>

definition add_one_day :: "date \<Rightarrow> error + date" where
  "add_one_day d =
     (if day d < days_in_month (year d) (month d) then Inr (Date (year d) (month d) (day d + 1))
      else if month d < 12 then Inr (Date (year d) (month d + 1) 1)
      else if year d < 9999 then Inr (Date (year d + 1) 1 1)
      else Inl OverflowError)"

definition sub_one_day :: "date \<Rightarrow> error + date" where
  "sub_one_day d =
     (if 1 < day d then Inr (Date (year d) (month d) (day d - 1))
      else if 1 < month d
        then Inr (Date (year d) (month d - 1) (days_in_month (year d) (month d - 1)))
      else if 1 < year d then Inr (Date (year d - 1) 12 31)
      else Inl OverflowError)"

text \<open>\<open>a <= b\<close> on dates.\<close>

definition date_le :: "date \<Rightarrow> date \<Rightarrow> bool" where
  "date_le a b = (year a < year b \<or> (year a = year b \<and>
                    (month a < month b \<or> (month a = month b \<and> day a \<le> day b))))"

text \<open>\<open>%02d\<close> and \<open>%04d\<close> on the ranges the script formats (below 100, below 10000).\<close>

definition pad2 :: "nat \<Rightarrow> string" where
  "pad2 n = [digit_char (n div 10), digit_char n]"

definition pad4 :: "nat \<Rightarrow> string" where
  "pad4 n = [digit_char (n div 1000), digit_char (n div 100), digit_char (n div 10), digit_char n]"

text \<open>\<open>str(d)\<close> of a date, \<open>strftime('%Y%m%d')\<close> and \<open>strftime('%H:%M:%S')\<close>.\<close>

definition str_date :: "date \<Rightarrow> string" where
  "str_date d = pad4 (year d) @ ''-'' @ pad2 (month d) @ ''-'' @ pad2 (day d)"

definition strftime_Ymd :: "date \<Rightarrow> string" where
  "strftime_Ymd d = pad4 (year d) @ pad2 (month d) @ pad2 (day d)"

definition strftime_HMS :: "nat \<Rightarrow> nat \<Rightarrow> nat \<Rightarrow> string" where
  "strftime_HMS h m s = pad2 h @ '':'' @ pad2 m @ '':'' @ pad2 s"

subsection \<open>\<open>datetime.strptime\<close>\<close>

text \<open>
  \<open>strptime\<close> turns the format into a regular expression, one group per directive, and
  matches it at the start of the string; the alternatives of a group are tried in order,
  backtracking when the rest of the expression fails. A match that does not reach the end of
  the string is a ValueError (unconverted data remains), as is no match.
  \<open>two A B\<close> is the alternative \<open>[A][B]\<close>, \<open>one A\<close> is \<open>[A]\<close>.
\<close>

definition two :: "string \<Rightarrow> string \<Rightarrow> string \<Rightarrow> (nat \<times> string) option" where
  "two A B s =
     (case s of
        a # b # r \<Rightarrow> if a \<in> set A \<and> b \<in> set B then Some (10 * digit_val a + digit_val b, r) else None
      | _ \<Rightarrow> None)"

definition one :: "string \<Rightarrow> string \<Rightarrow> (nat \<times> string) option" where
  "one A s = (case s of a # r \<Rightarrow> if a \<in> set A then Some (digit_val a, r) else None | [] \<Rightarrow> None)"

fun alts :: "(string \<Rightarrow> (nat \<times> string) option) list \<Rightarrow> (nat \<Rightarrow> string \<Rightarrow> 'a option)
               \<Rightarrow> string \<Rightarrow> 'a option" where
  "alts [] k s = None"
| "alts (p # ps) k s =
     (case p s of
        None \<Rightarrow> alts ps k s
      | Some (v, r) \<Rightarrow> (case k v r of None \<Rightarrow> alts ps k s | Some x \<Rightarrow> Some x))"

definition lit :: "char \<Rightarrow> (string \<Rightarrow> 'a option) \<Rightarrow> string \<Rightarrow> 'a option" where
  "lit c k s = (case s of a # r \<Rightarrow> if a = c then k r else None | [] \<Rightarrow> None)"

text \<open>A blank in the format is \<open>\s+\<close>; what follows it here starts with a digit, so only the
  longest run of white space can match.\<close>

definition spaces :: "(string \<Rightarrow> 'a option) \<Rightarrow> string \<Rightarrow> 'a option" where
  "spaces k s = (case s of a # r \<Rightarrow> if is_space a then k (dropWhile is_space r) else None | [] \<Rightarrow> None)"

definition all_digits :: string where
  "all_digits = ''0123456789''"

definition re_H :: "(string \<Rightarrow> (nat \<times> string) option) list" where
  "re_H = [two ''2'' ''0123'', two ''01'' all_digits, one all_digits]"

definition re_M :: "(string \<Rightarrow> (nat \<times> string) option) list" where
  "re_M = [two ''012345'' all_digits, one all_digits]"

definition re_S :: "(string \<Rightarrow> (nat \<times> string) option) list" where
  "re_S = [two ''6'' ''01'', two ''012345'' all_digits, one all_digits]"

definition re_m :: "(string \<Rightarrow> (nat \<times> string) option) list" where
  "re_m = [two ''1'' ''012'', two ''0'' ''123456789'', one ''123456789'']"

definition re_d :: "(string \<Rightarrow> (nat \<times> string) option) list" where
  "re_d = [two ''3'' ''01'', two ''12'' all_digits, two ''0'' ''123456789'', one ''123456789'',
           lit CHR '' '' (one ''123456789'')]"

definition re_Y :: "(string \<Rightarrow> (nat \<times> string) option) list" where
  "re_Y = [\<lambda>s. case two all_digits all_digits s of
                  None \<Rightarrow> None
                | Some (hi, r) \<Rightarrow> (case two all_digits all_digits r of
                      None \<Rightarrow> None
                    | Some (lo, r') \<Rightarrow> Some (100 * hi + lo, r'))]"

definition at_end :: "(string \<times> 'a) option \<Rightarrow> error + 'a" where
  "at_end m = (case m of None \<Rightarrow> Inl ValueError
               | Some (rest, v) \<Rightarrow> if rest = [] then Inr v else Inl ValueError)"

text \<open>\<open>strptime(s, '%H:%M')\<close>: the hour and the minute.\<close>

definition strptime_HM :: "string \<Rightarrow> error + (nat \<times> nat)" where
  "strptime_HM s =
     at_end (alts re_H (\<lambda>h. lit CHR '':'' (alts re_M (\<lambda>m r. Some (r, (h, m))))) s)"

text \<open>The date part of a match: groups \<open>%Y-%m-%d\<close>, then the continuation.\<close>

definition match_Ymd :: "(date \<Rightarrow> string \<Rightarrow> 'a option) \<Rightarrow> string \<Rightarrow> 'a option" where
  "match_Ymd k =
     alts re_Y (\<lambda>y. lit CHR ''-'' (alts re_m (\<lambda>m. lit CHR ''-'' (alts re_d (\<lambda>d. k (Date y m d))))))"

text \<open>The fields are then checked to be a date of the calendar.\<close>

definition checked_date :: "date \<Rightarrow> error + date" where
  "checked_date d = (if valid_date d then Inr d else Inl ValueError)"

text \<open>\<open>strptime(s, '%Y-%m-%d').date()\<close>.\<close>

definition strptime_Ymd :: "string \<Rightarrow> error + date" where
  "strptime_Ymd s = e_bind (at_end (match_Ymd (\<lambda>d r. Some (r, d)) s)) checked_date"

text \<open>\<open>strptime(s, '%Y-%m-%d %H:%M:%S')\<close>: the date, the hour, the minute and the second.\<close>

definition strptime_Ymd_HMS :: "string \<Rightarrow> error + (date \<times> nat \<times> nat \<times> nat)" where
  "strptime_Ymd_HMS s =
     e_bind (at_end (match_Ymd (\<lambda>d. spaces (alts re_H (\<lambda>h. lit CHR '':'' (alts re_M (\<lambda>m.
               lit CHR '':'' (alts re_S (\<lambda>sec r. Some (r, (d, h, m, sec))))))))) s))
       (\<lambda>(d, hms). e_bind (checked_date d) (\<lambda>d'. Inr (d', hms)))"

section \<open>The widgets, the globals and the world\<close>

text \<open>
  A value that \<open>list_split\<close> returns: a string, a float or a list. Floating-point values
  are kept abstract (type \<open>'f\<close>); Python's \<open>float()\<close> is a parameter of the model.
\<close>

datatype 'f pyval = PStr string | PFloat 'f | PList "'f pyval list"

subsection \<open>Spreadsheets as pandas reads them\<close>

text \<open>
  A cell of a data frame is NaN (an empty cell), a string or an integer; float-valued
  cells are outside the model. \<open>str_cell\<close>, \<open>int_cell\<close> and \<open>truthy\<close> are Python's
  \<open>str()\<close>, \<open>int()\<close> and truth value of such a cell.
\<close>

datatype cell = CNaN | CStr string | CInt int

definition str_cell :: "cell \<Rightarrow> string" where
  "str_cell c = (case c of CNaN \<Rightarrow> ''nan'' | CStr s \<Rightarrow> s | CInt i \<Rightarrow> str_int i)"

definition int_cell :: "cell \<Rightarrow> error + int" where
  "int_cell c = (case c of CNaN \<Rightarrow> Inl ValueError | CStr s \<Rightarrow> py_int s | CInt i \<Rightarrow> Inr i)"

definition truthy :: "cell \<Rightarrow> bool" where
  "truthy c = (case c of CNaN \<Rightarrow> True | CStr s \<Rightarrow> s \<noteq> [] | CInt i \<Rightarrow> i \<noteq> 0)"

text \<open>
  A data frame has named columns and numbered rows; \<open>df[col][x]\<close> raises KeyError when
  the column or the row label is missing.
\<close>

record dataframe =
  columns :: "string list"
  rows :: "(string \<Rightarrow> cell) list"

definition getcell :: "dataframe \<Rightarrow> string \<Rightarrow> int \<Rightarrow> error + cell" where
  "getcell df col x =
     (if col \<in> set (columns df) \<and> 0 \<le> x \<and> nat x < length (rows df)
      then Inr ((rows df ! nat x) col) else Inl KeyError)"

text \<open>\<open>df[col]\<close> as the list of its cells.\<close>

definition column :: "dataframe \<Rightarrow> string \<Rightarrow> error + cell list" where
  "column df col =
     (if col \<in> set (columns df) then Inr (map (\<lambda>r. r col) (rows df)) else Inl KeyError)"

subsection \<open>Tickets, files, dialogs\<close>

record 'f ticket =
  t_name :: string
  t_ra :: "string option"
  t_dec :: "string option"
  t_start_time :: string
  t_end_time :: string
  t_filter :: "'f pyval"
  t_num :: int
  t_exp_time :: "'f pyval"
  t_camera :: string
  t_self_guide :: bool
  t_guide :: bool
  t_cycle_filter :: bool
  t_initial_focus :: bool
  t_satellite_tracking :: bool
  t_satellite_tracking_mode :: int

text \<open>
  A file holds a CSV table, text or the JSON of a ticket, and has a modification
  time (microseconds). A path is the list of its components below the script's directory.
\<close>

datatype 'f content = Table dataframe | Text string | Ticket "'f ticket"

type_synonym path = "string list"

datatype dialog_thread = DialogThread (title: string) (message: string)

datatype resource = Google_Sheet | Transit_Site | Celestrak

record 'f state =
  name_box :: string
  ra_box :: string
  dec_box :: string
  start_time_box :: string
  end_time_box :: string
  filter_box :: string
  n_exposures_box :: string
  exposure_time_box :: string
  selection :: string
  camera :: string
  satellite_tracking :: int
  satellite_tracking_mode :: int
  self_guide :: int
  guide :: int
  cycle_filter :: int
  initial_focus :: int
  SATELLITES :: "string set"
  dialog :: "dialog_thread option"
  dialog_2 :: "dialog_thread option"
  toi_list :: "string list"
  clipboard :: string
  files :: "path \<rightharpoonup> ('f content \<times> int)"
  dirs :: "path set"
  net_log :: "resource list"

datatype entry =
  Name | Ra | Dec | Start_time | End_time | Filter | N_exposures | Exposure_time

fun get :: "entry \<Rightarrow> 'f state \<Rightarrow> string" where
  "get Name st = name_box st"
| "get Ra st = ra_box st"
| "get Dec st = dec_box st"
| "get Start_time st = start_time_box st"
| "get End_time st = end_time_box st"
| "get Filter st = filter_box st"
| "get N_exposures st = n_exposures_box st"
| "get Exposure_time st = exposure_time_box st"

section \<open>\<open>list_split\<close>\<close>

definition py_float :: "(string \<Rightarrow> 'f option) \<Rightarrow> string \<Rightarrow> error + 'f" where
  "py_float float_of t = (case float_of t of None \<Rightarrow> Inl ValueError | Some v \<Rightarrow> Inr v)"

fun floats :: "(string \<Rightarrow> 'f option) \<Rightarrow> string list \<Rightarrow> error + 'f list" where
  "floats float_of [] = Inr []"
| "floats float_of (t # ts) =
     e_bind (py_float float_of t) (\<lambda>v. e_bind (floats float_of ts) (\<lambda>vs. Inr (v # vs)))"

definition filter_token :: "string \<Rightarrow> string" where
  "filter_token ii = (if ii = ''Ha'' then ii else lower ii)"

definition list_split :: "(string \<Rightarrow> 'f option) \<Rightarrow> entry \<Rightarrow> 'f state \<Rightarrow> error + 'f pyval" where
  "list_split float_of entry st =
     (let i = split '','' (replace '' '' '''' (get entry st)) in
      if entry = Exposure_time then
        (if length i > 1 then e_bind (floats float_of i) (\<lambda>fs. Inr (PList (map PFloat fs)))
         else e_bind (py_float float_of (i ! 0)) (\<lambda>v. Inr (PFloat v)))
      else if entry = Filter then
        Inr (PStr (if length i > 1 then json_dumps (map filter_token i)
                   else filter_token (i ! 0)))
      else Inr (PList (map PStr i)))"


section \<open>The clock, the network and the file system\<close>

text \<open>
  What a call reads from outside the program: the clock (\<open>now\<close> in microseconds,
  \<open>date.today()\<close>, the local hour, \<open>time.localtime().tm_isdst\<close>), the directory of the
  script, and the answer of each remote site (\<open>None\<close> when the request raises). A call is
  modelled at one reading of the clock; a file written by it gets that time as its
  modification time.
\<close>

record 'f env =
  now :: int
  today :: date
  clock_hour :: nat
  tm_isdst :: int
  current_path :: string
  google_sheet_response :: "'f content option"
  transit_site_response :: "'f content option"
  celestrak_response :: "string option"

definition info_directory :: path where
  "info_directory = [''toi_info'']"

definition google_path :: path where
  "google_path = info_directory @ [''google.csv'']"

definition satellites_path :: path where
  "satellites_path = info_directory @ [''satellites.txt'']"

definition info_chart_path :: path where
  "info_chart_path = info_directory @ [''info_chart.csv'']"

text \<open>\<open>datetime.timedelta(hours=12)\<close>, in microseconds.\<close>

definition hours_12 :: int where
  "hours_12 = 12 * 3600 * 1000000"

definition path_exists :: "'f state \<Rightarrow> path \<Rightarrow> bool" where
  "path_exists st p = (files st p \<noteq> None \<or> p \<in> dirs st)"

definition getmtime :: "'f state \<Rightarrow> path \<Rightarrow> error + int" where
  "getmtime st p = (case files st p of None \<Rightarrow> Inl FileNotFoundError | Some (c, m) \<Rightarrow> Inr m)"

definition mkdir :: "path \<Rightarrow> 'f state \<Rightarrow> 'f state" where
  "mkdir p st = st\<lparr>dirs := insert p (dirs st)\<rparr>"

definition write_file :: "path \<Rightarrow> 'f content \<Rightarrow> int \<Rightarrow> 'f state \<Rightarrow> 'f state" where
  "write_file p c t st = st\<lparr>files := (files st)(p \<mapsto> (c, t))\<rparr>"

definition rename :: "path \<Rightarrow> path \<Rightarrow> 'f state \<Rightarrow> 'f state" where
  "rename src dst st = st\<lparr>files := (files st)(dst := files st src, src := None)\<rparr>"

definition remove :: "path \<Rightarrow> 'f state \<Rightarrow> 'f state" where
  "remove p st = st\<lparr>files := (files st)(p := None)\<rparr>"

text \<open>
  Reading a file: \<open>pandas.read_csv\<close>, reading text, \<open>json.load\<close>. A file that holds
  another kind of content than the reader expects is an error of the reader.
\<close>

definition read_csv :: "'f state \<Rightarrow> path \<Rightarrow> error + dataframe" where
  "read_csv st p =
     (case files st p of
        None \<Rightarrow> Inl FileNotFoundError
      | Some (Table df, m) \<Rightarrow> Inr df
      | Some (_, m) \<Rightarrow> Inl ParserError)"

definition read_text :: "'f state \<Rightarrow> path \<Rightarrow> error + string" where
  "read_text st p =
     (case files st p of
        None \<Rightarrow> Inl FileNotFoundError
      | Some (Text s, m) \<Rightarrow> Inr s
      | Some (_, m) \<Rightarrow> Inl ParserError)"

definition json_load :: "'f state \<Rightarrow> path \<Rightarrow> error + 'f ticket" where
  "json_load st p =
     (case files st p of
        None \<Rightarrow> Inl FileNotFoundError
      | Some (Ticket t, m) \<Rightarrow> Inr t
      | Some (_, m) \<Rightarrow> Inl ParserError)"

text \<open>\<open>requests.get\<close>: the request is logged, and raises when the site does not answer.\<close>

definition requests_get :: "resource \<Rightarrow> 'r option \<Rightarrow> 'f state \<Rightarrow> error + ('r \<times> 'f state)" where
  "requests_get r resp st =
     (case resp of
        None \<Rightarrow> Inl RequestException
      | Some c \<Rightarrow> Inr (c, st\<lparr>net_log := net_log st @ [r]\<rparr>))"

section \<open>\<open>check_toi\<close>\<close>

text \<open>
  The satellite catalog out of the TLE feed (the loop of \<open>check_toi\<close>): every line that
  does not start with \<open>1\<close> or \<open>2\<close> is a name, stored stripped and uppercased, and once
  more without what follows its first parenthesis. \<open>line[0]\<close> raises IndexError on an empty
  line.
\<close>

fun add_tle_lines :: "string list \<Rightarrow> string set \<Rightarrow> error + string set" where
  "add_tle_lines [] S = Inr S"
| "add_tle_lines (line # ls) S =
     (case line of
        [] \<Rightarrow> Inl IndexError
      | c # _ \<Rightarrow>
          if c \<notin> set ''12'' then
            (let l = strip line;
                 S1 = insert (upper l) S;
                 S2 = (if CHR ''('' \<in> set l then insert (upper (strip (hd (split ''('' l)))) S1 else S1)
             in add_tle_lines ls S2)
          else add_tle_lines ls S)"

text \<open>
  The satellite part of \<open>check_toi\<close>: the local list is used when it exists and is less
  than 12 hours old; otherwise the feed is requested, the catalog is built and written,
  sorted, one name per line.
\<close>

definition check_toi_satellites :: "'f env \<Rightarrow> 'f state \<Rightarrow> error + 'f state" where
  "check_toi_satellites env st =
     e_bind (if path_exists st satellites_path
             then e_bind (getmtime st satellites_path) (\<lambda>m. Inr (now env - m < hours_12))
             else Inr False) (\<lambda>fresh.
     if fresh then
       e_bind (read_text st satellites_path) (\<lambda>f.
       Inr (st\<lparr>SATELLITES := set (map strip (file_lines f))\<rparr>))
     else
       e_bind (requests_get Celestrak (celestrak_response env) st) (\<lambda>(tles, st1).
       e_bind (add_tle_lines (splitlines tles) {}) (\<lambda>S.
       Inr (write_file satellites_path (Text (join [CHR 0x0A] (sorted_list_of_set S))) (now env)
              (st1\<lparr>SATELLITES := S\<rparr>)))))"

text \<open>
  \<open>check_toi\<close>: the schedule sheet is requested and written to \<open>google.csv\<close> on every call;
  then the satellite catalog is loaded. (The label with tonight's target, which the
  function also draws, is not part of the model.)
\<close>

definition check_toi :: "'f env \<Rightarrow> 'f state \<Rightarrow> error + 'f state" where
  "check_toi env st =
     (let st1 = (if \<not> path_exists st info_directory then mkdir info_directory st else st) in
      e_bind (requests_get Google_Sheet (google_sheet_response env) st1) (\<lambda>(savefile, st2).
      check_toi_satellites env (write_file google_path savefile (now env) st2)))"

section \<open>\<open>target_grab\<close>\<close>

definition clear_box :: "'f state \<Rightarrow> 'f state" where
  "clear_box st = st\<lparr>name_box := [], ra_box := [], dec_box := [], start_time_box := [],
     end_time_box := [], filter_box := [], n_exposures_box := [], exposure_time_box := []\<rparr>"

text \<open>\<open>box.insert(i, s)\<close> on the text of an entry box.\<close>

definition insert_text :: "nat \<Rightarrow> string \<Rightarrow> string \<Rightarrow> string" where
  "insert_text i s box = take i box @ s @ drop i box"

text \<open>
  The ephemeris table is requested when there is no local copy or when the copy is more
  than 12 hours old.
\<close>

definition fetch_info_chart :: "'f env \<Rightarrow> 'f state \<Rightarrow> error + 'f state" where
  "fetch_info_chart env st =
     e_bind (if \<not> path_exists st info_chart_path then Inr True
             else e_bind (getmtime st info_chart_path) (\<lambda>m. Inr (now env - m > hours_12))) (\<lambda>stale.
     if stale then
       e_bind (requests_get Transit_Site (transit_site_response env) st) (\<lambda>(tbl_page, st1).
       Inr (write_file info_chart_path tbl_page (now env) st1))
     else Inr st)"

text \<open>The first row of the table whose TOI reads as \<open>toi\<close>, if any, gives RA and Dec.\<close>

definition lookup_coords :: "dataframe \<Rightarrow> string \<Rightarrow> error + (cell option \<times> cell option)" where
  "lookup_coords info_csv toi =
     e_bind (column info_csv ''TOI'') (\<lambda>tois.
     case find (\<lambda>y. str_cell (tois ! y) = toi) [0..<length tois] of
       None \<Rightarrow> Inr (None, None)
     | Some y \<Rightarrow>
         e_bind (getcell info_csv ''RA'' (int y)) (\<lambda>ra_coord.
         e_bind (getcell info_csv ''Dec'' (int y)) (\<lambda>dec_coord.
         Inr (Some ra_coord, Some dec_coord))))"

text \<open>\<open>str()\<close> of a coordinate that may be \<open>None\<close>.\<close>

definition str_opt :: "cell option \<Rightarrow> string" where
  "str_opt c = (case c of None \<Rightarrow> ''None'' | Some v \<Rightarrow> str_cell v)"

text \<open>The day of a clock time of the night of \<open>start_date\<close>, as a string.\<close>

definition day_of :: "date \<Rightarrow> nat \<Rightarrow> error + string" where
  "day_of start_date hour =
     (if hour \<le> 12 then e_bind (add_one_day start_date) (\<lambda>d. Inr (str_date d))
      else Inr (str_date start_date))"

text \<open>A local variable that is only assigned on one branch.\<close>

definition bound :: "'a option \<Rightarrow> error + 'a" where
  "bound v = (case v of None \<Rightarrow> Inl UnboundLocalError | Some x \<Rightarrow> Inr x)"

text \<open>
  What \<open>target_grab\<close> reads from the selection and from row \<open>x\<close> of the schedule sheet:
  the night of the observation, the target under its display name and under the name that
  is looked up in the ephemeris table, and the other cells of the row. The two tracking
  variables stay unbound when the sheet lacks their columns.
\<close>

record row_info =
  r_start_date :: date
  r_target_name :: string
  r_toi :: string
  r_obs_start :: string
  r_obs_end :: string
  r_filter_input :: string
  r_exposure :: string
  r_selected_cam :: string
  r_satellite_tracking_data :: "int option"
  r_tracking_mode_data :: "int option"

definition read_row :: "'f state \<Rightarrow> error + row_info" where
  "read_row st =
     (let input_info = split '': '' (selection st) in
      e_bind (e_bind (index input_info 0) strptime_Ymd) (\<lambda>start_date.
      e_bind (index input_info 1) (\<lambda>target.
      e_bind (read_csv st google_path) (\<lambda>google_sheet.
      e_bind (py_int (drop 1 (last (split ''_'' target)))) (\<lambda>x.
      e_bind (getcell google_sheet ''Target'' x) (\<lambda>c_target.
      e_bind (getcell google_sheet ''Start'' x) (\<lambda>c_start.
      e_bind (getcell google_sheet ''End'' x) (\<lambda>c_end.
      e_bind (getcell google_sheet ''Filter'' x) (\<lambda>c_filter.
      e_bind (getcell google_sheet ''Exp'' x) (\<lambda>c_exp.
      e_bind (if ''Camera'' \<in> set (columns google_sheet)
              then e_bind (getcell google_sheet ''Camera'' x) (\<lambda>c. Inr (str_cell c))
              else Inr ''CCD'') (\<lambda>selected_cam.
      e_bind (if ''Satellite Tracking'' \<in> set (columns google_sheet)
              then e_bind (getcell google_sheet ''Satellite Tracking'' x) (\<lambda>c.
                   e_bind (int_cell c) (\<lambda>i. Inr (Some i)))
              else Inr None) (\<lambda>satellite_tracking_data.
      e_bind (if ''Tracking Mode'' \<in> set (columns google_sheet)
              then e_bind (getcell google_sheet ''Tracking Mode'' x) (\<lambda>c.
                   e_bind (int_cell c) (\<lambda>i. Inr (Some i)))
              else Inr None) (\<lambda>tracking_mode_data.
      let is_toi = startswith (str_cell c_target) ''TOI'' in
      Inr \<lparr>r_start_date = start_date,
           r_target_name = (if is_toi then replace ''.'' ''-'' (replace '' '' '''' (str_cell c_target))
                          else str_cell c_target),
           r_toi = (if is_toi then replace ''TOI'' '''' (replace '' '' '''' (str_cell c_target))
                  else str_cell c_target),
           r_obs_start = str_cell c_start,
           r_obs_end = str_cell c_end,
           r_filter_input = str_cell c_filter,
           r_exposure = str_cell c_exp,
           r_selected_cam = selected_cam,
           r_satellite_tracking_data = satellite_tracking_data,
           r_tracking_mode_data = tracking_mode_data\<rparr>)))))))))))))"

text \<open>
  The absolute start and end of the observation: each clock time is parsed, formatted
  again with seconds, and put on the day that \<open>day_of\<close> gives it.
\<close>

definition resolve_times :: "row_info \<Rightarrow> error + (string \<times> string)" where
  "resolve_times r =
     e_bind (strptime_HM (r_obs_start r)) (\<lambda>(x_hour, x_minute).
     e_bind (strptime_HM (r_obs_end r)) (\<lambda>(xx_hour, xx_minute).
     e_bind (day_of (r_start_date r) x_hour) (\<lambda>day_start.
     e_bind (day_of (r_start_date r) xx_hour) (\<lambda>day_end.
     Inr (day_start @ '' '' @ strftime_HMS x_hour x_minute 0,
          day_end @ '' '' @ strftime_HMS xx_hour xx_minute 0)))))"

text \<open>
  \<open>target_grab\<close>: unless the selection is the heading of the list, the boxes are cleared,
  the row is read, the ephemeris table is refreshed and searched, the times are resolved
  and the form is filled; the number of exposures is the constant 100000. Self guiding is
  set to the opposite of satellite tracking.
\<close>

definition target_grab :: "'f env \<Rightarrow> 'f state \<Rightarrow> error + 'f state" where
  "target_grab env st0 =
     (if selection st0 = ''Observation List'' then Inr st0
      else
        let st1 = clear_box st0 in
        e_bind (read_row st1) (\<lambda>r.
        e_bind (fetch_info_chart env st1) (\<lambda>st2.
        e_bind (read_csv st2 info_chart_path) (\<lambda>info_csv.
        e_bind (lookup_coords info_csv (r_toi r)) (\<lambda>(ra_coord, dec_coord).
        e_bind (resolve_times r) (\<lambda>(begin_s, end_s).
        let num_exposures = 100000;
            st3 = st2\<lparr>name_box := insert_text 10 (r_target_name r) (name_box st2),
                      ra_box := insert_text 10 (str_opt ra_coord) (ra_box st2),
                      dec_box := insert_text 10 (str_opt dec_coord) (dec_box st2),
                      start_time_box := insert_text 10 begin_s (start_time_box st2),
                      end_time_box := insert_text 10 end_s (end_time_box st2),
                      filter_box := insert_text 10 (r_filter_input r) (filter_box st2),
                      n_exposures_box := insert_text 10 (str_int num_exposures) (n_exposures_box st2),
                      exposure_time_box := insert_text 10 (replace ''s'' '''' (r_exposure r))
                                             (exposure_time_box st2),
                      camera := r_selected_cam r\<rparr>
        in
        e_bind (bound (r_satellite_tracking_data r)) (\<lambda>sat.
        e_bind (bound (r_tracking_mode_data r)) (\<lambda>mode.
        Inr (st3\<lparr>satellite_tracking := sat,
                 satellite_tracking_mode := mode,
                 self_guide := (if sat \<noteq> 0 then 0 else 1)\<rparr>)))))))))"

section \<open>\<open>create_list\<close>\<close>

text \<open>
  One round of the loop of \<open>create_list\<close>: the entry of row \<open>x\<close> in the list of future
  observations, or \<open>None\<close> when the row is skipped.
\<close>

definition create_list_row :: "date \<Rightarrow> dataframe \<Rightarrow> nat \<Rightarrow> error + string option" where
  "create_list_row current_date sheet x =
     e_bind (getcell sheet ''Target'' (int x)) (\<lambda>c_target.
     let target = (if startswith (str_cell c_target) ''TOI''
                   then replace ''.'' ''-'' (replace '' '' '''' (str_cell c_target))
                   else str_cell c_target)
     in
     e_bind (getcell sheet ''NoD'' (int x)) (\<lambda>c_nod.
     let nod = str_cell c_nod in
     if target \<noteq> ''nan'' \<and> nod \<noteq> ''nan'' then
       e_bind (strptime_Ymd nod) (\<lambda>row_date.
       if date_le current_date row_date \<and> target \<noteq> ''NaN'' then
         e_bind (getcell sheet ''Satellite Tracking'' (int x)) (\<lambda>enable_sat_tracking.
         e_bind (if truthy enable_sat_tracking
                 then e_bind (getcell sheet ''Tracking Mode'' (int x)) (\<lambda>c. Inr (''_Mode'' @ str_cell c))
                 else Inr '''') (\<lambda>sat_mode.
         e_bind (getcell sheet ''Start'' (int x)) (\<lambda>c_start.
         e_bind (getcell sheet ''Exp'' (int x)) (\<lambda>c_exp.
         e_bind (getcell sheet ''Filter'' (int x)) (\<lambda>c_filter.
         let display_name = target @ ''_'' @ str_cell c_start @ sat_mode @ ''_'' @ str_cell c_exp
                              @ ''_'' @ str_cell c_filter @ ''_#'' @ str_nat x
         in Inr (Some (str_date row_date @ '': '' @ display_name)))))))
       else Inr None)
     else Inr None))"

fun create_list_loop :: "date \<Rightarrow> dataframe \<Rightarrow> nat list \<Rightarrow> string list \<Rightarrow> error + string list" where
  "create_list_loop current_date sheet [] future_toi_list = Inr future_toi_list"
| "create_list_loop current_date sheet (x # xs) future_toi_list =
     e_bind (create_list_row current_date sheet x) (\<lambda>r.
     create_list_loop current_date sheet xs
       (case r of None \<Rightarrow> future_toi_list | Some e \<Rightarrow> future_toi_list @ [e]))"

definition create_list :: "'f env \<Rightarrow> 'f state \<Rightarrow> error + string list" where
  "create_list env st =
     e_bind (read_csv st google_path) (\<lambda>sheet.
     create_list_loop (today env) sheet [0..<length (rows sheet)] [])"

text \<open>
  \<open>create_list\<close> of \<open>observation_tickets/Observation_ticket_creator.pyw\<close>: the counter
  \<open>num\<close> stops the list at eleven entries, and an entry shows the target as the sheet has it.
\<close>

definition create_list_row_pyw :: "date \<Rightarrow> dataframe \<Rightarrow> nat \<Rightarrow> nat \<Rightarrow> error + string option" where
  "create_list_row_pyw current_date sheet num x =
     (if num < 11 then
        e_bind (getcell sheet ''Target'' (int x)) (\<lambda>c_target.
        if str_cell c_target \<noteq> ''nan'' then
          e_bind (getcell sheet ''NoD'' (int x)) (\<lambda>c_nod.
          if str_cell c_nod \<noteq> ''nan'' then
            e_bind (strptime_Ymd (str_cell c_nod)) (\<lambda>row_date.
            if date_le current_date row_date \<and> c_target \<noteq> CStr ''NaN''
            then Inr (Some (str_date row_date @ '': '' @ str_cell c_target))
            else Inr None)
          else Inr None)
        else Inr None)
      else Inr None)"

fun create_list_loop_pyw ::
  "date \<Rightarrow> dataframe \<Rightarrow> nat list \<Rightarrow> nat \<Rightarrow> string list \<Rightarrow> error + string list" where
  "create_list_loop_pyw current_date sheet [] num future_toi_list = Inr future_toi_list"
| "create_list_loop_pyw current_date sheet (x # xs) num future_toi_list =
     e_bind (create_list_row_pyw current_date sheet num x) (\<lambda>r.
     case r of
       None \<Rightarrow> create_list_loop_pyw current_date sheet xs num future_toi_list
     | Some e \<Rightarrow> create_list_loop_pyw current_date sheet xs (num + 1) (future_toi_list @ [e]))"

definition create_list_pyw :: "'f env \<Rightarrow> 'f state \<Rightarrow> error + string list" where
  "create_list_pyw env st =
     e_bind (read_csv st google_path) (\<lambda>sheet.
     create_list_loop_pyw (today env) sheet [0..<length (rows sheet)] 0 [])"

text \<open>
  The rows that the specification puts in the listing: the target and the night are
  present, and the night is today or later. A cell that pandas has read is never the text
  \<open>nan\<close> or \<open>NaN\<close>: those are read as the empty cell.
\<close>

definition present :: "cell \<Rightarrow> bool" where
  "present c = (c \<noteq> CNaN)"

definition listed_row :: "date \<Rightarrow> (string \<Rightarrow> cell) \<Rightarrow> bool" where
  "listed_row current_date r =
     (present (r ''Target'') \<and> present (r ''NoD'') \<and>
      (case strptime_Ymd (str_cell (r ''NoD'')) of
         Inr night_of_date \<Rightarrow> date_le current_date night_of_date
       | Inl e \<Rightarrow> False))"

definition pandas_cell :: "cell \<Rightarrow> bool" where
  "pandas_cell c = (c \<noteq> CStr ''nan'' \<and> c \<noteq> CStr ''NaN'')"

section \<open>\<open>savetxt\<close>\<close>

definition dst_check :: "'f env \<Rightarrow> string" where
  "dst_check env = (if tm_isdst env = 1 then ''-04:00'' else ''-05:00'')"

definition not_found_dialog :: "string \<Rightarrow> dialog_thread" where
  "not_found_dialog n =
     DialogThread ''Error: Satellite not found''
       (''Error: the specified satellite '' @ [CHR 0x22] @ n @ [CHR 0x22]
        @ '' was not found in the catalog.\<newline>Check the target name. Try swapping dashes and spaces.'')"

text \<open>The dictionary \<open>observation_ticket\<close> that \<open>savetxt\<close> builds from the form.\<close>

definition observation_ticket ::
  "string \<Rightarrow> 'f pyval \<Rightarrow> 'f pyval \<Rightarrow> int \<Rightarrow> 'f state \<Rightarrow> 'f ticket" where
  "observation_ticket dst i j num st =
     \<lparr>t_name = name_box st,
      t_ra = (if ra_box st = ''None'' then None else Some (ra_box st)),
      t_dec = (if dec_box st = ''None'' then None else Some (dec_box st)),
      t_start_time = start_time_box st @ dst,
      t_end_time = end_time_box st @ dst,
      t_filter = i,
      t_num = num,
      t_exp_time = j,
      t_camera = camera st,
      t_self_guide = (self_guide st \<noteq> 0),
      t_guide = (guide st \<noteq> 0),
      t_cycle_filter = (cycle_filter st \<noteq> 0),
      t_initial_focus = (initial_focus st \<noteq> 0),
      t_satellite_tracking = (satellite_tracking st \<noteq> 0),
      t_satellite_tracking_mode = satellite_tracking_mode st\<rparr>"

text \<open>The file of the ticket of a list entry \<open>target\<close>: the entry without its colons, as
  \<open>.json\<close>, in the directory of the script.\<close>

definition ticket_path :: "string \<Rightarrow> path" where
  "ticket_path target = [replace '':'' '''' target @ ''.json'']"

text \<open>
  \<open>savetxt\<close> writes the ticket of the form as \<open><selection>.json\<close>. When satellite
  tracking is set and the name is not in the catalog, it opens the error dialog (unless one
  is open already) and returns without writing.
\<close>

definition savetxt :: "(string \<Rightarrow> 'f option) \<Rightarrow> 'f env \<Rightarrow> 'f state \<Rightarrow> error + 'f state" where
  "savetxt float_of env st =
     (let dst = dst_check env in
      e_bind (list_split float_of Filter st) (\<lambda>i.
      e_bind (list_split float_of Exposure_time st) (\<lambda>j.
      if satellite_tracking st \<noteq> 0 \<and> upper (name_box st) \<notin> SATELLITES st then
        Inr (if dialog st = None then st\<lparr>dialog := Some (not_found_dialog (name_box st))\<rparr> else st)
      else
        let st1 = (if dialog st \<noteq> None then st\<lparr>dialog := None\<rparr> else st) in
        e_bind (py_int (n_exposures_box st1)) (\<lambda>num.
        e_bind (index (split '': '' (selection st1)) 1) (\<lambda>sel.
        Inr (write_file (ticket_path sel) (Ticket (observation_ticket dst i j num st1)) (now env)
               st1))))))"

section \<open>\<open>save_all\<close> and \<open>save_all_auto_folders\<close>\<close>

fun save_all_loop ::
  "(string \<Rightarrow> 'f option) \<Rightarrow> 'f env \<Rightarrow> string list \<Rightarrow> 'f state \<Rightarrow> error + 'f state" where
  "save_all_loop float_of env [] st = Inr st"
| "save_all_loop float_of env (target # targets) st =
     e_bind (target_grab env (st\<lparr>selection := target\<rparr>)) (\<lambda>st1.
     e_bind (savetxt float_of env st1) (\<lambda>st2.
     save_all_loop float_of env targets st2))"

definition save_all :: "(string \<Rightarrow> 'f option) \<Rightarrow> 'f env \<Rightarrow> 'f state \<Rightarrow> error + 'f state" where
  "save_all float_of env st = save_all_loop float_of env (drop 1 (toi_list st)) st"

text \<open>
  The night of a ticket's start: a start before noon belongs to the night of the day
  before. The result is the name of the folder.
\<close>

definition folder_of :: "'f env \<Rightarrow> 'f ticket \<Rightarrow> error + string" where
  "folder_of env target_info =
     e_bind (strptime_Ymd_HMS (replace (dst_check env) '''' (t_start_time target_info)))
       (\<lambda>(d, hour, minute, second).
     e_bind (if hour < 12 then sub_one_day d else Inr d) (\<lambda>start_time.
     Inr (strftime_Ymd start_time)))"

text \<open>
  The file of a ticket is moved into its folder, which is made when missing; when the
  folder already has a file of that name, the new file is removed instead.
\<close>

definition move_into_folder :: "string \<Rightarrow> string \<Rightarrow> 'f state \<Rightarrow> 'f state" where
  "move_into_folder folder_name target_name st =
     (let target_path = [target_name @ ''.json''];
          folder_path = [folder_name];
          st1 = (if \<not> path_exists st folder_path then mkdir folder_path st else st)
      in if \<not> path_exists st1 (folder_path @ [target_name @ ''.json''])
         then rename target_path (folder_path @ [target_name @ ''.json'']) st1
         else remove target_path st1)"

text \<open>One round of the loop of \<open>save_all_auto_folders\<close>.\<close>

definition save_into_folder ::
  "(string \<Rightarrow> 'f option) \<Rightarrow> 'f env \<Rightarrow> string \<Rightarrow> 'f state \<Rightarrow> error + 'f state" where
  "save_into_folder float_of env target st =
     e_bind (target_grab env (st\<lparr>selection := target\<rparr>)) (\<lambda>st1.
     e_bind (savetxt float_of env st1) (\<lambda>st2.
     e_bind (index (split '': '' target) 1) (\<lambda>t.
     let target_name = replace '':'' '''' t in
     e_bind (json_load st2 [target_name @ ''.json'']) (\<lambda>target_info.
     e_bind (folder_of env target_info) (\<lambda>folder_name.
     Inr (move_into_folder folder_name target_name st2))))))"

fun save_all_auto_folders_loop ::
  "(string \<Rightarrow> 'f option) \<Rightarrow> 'f env \<Rightarrow> string list \<Rightarrow> 'f state \<Rightarrow> error + 'f state" where
  "save_all_auto_folders_loop float_of env [] st = Inr st"
| "save_all_auto_folders_loop float_of env (target # targets) st =
     e_bind (save_into_folder float_of env target st) (\<lambda>st1.
     save_all_auto_folders_loop float_of env targets st1)"

text \<open>The folder of tonight by the clock of the process, for the command on the clipboard.\<close>

definition tonight :: "'f env \<Rightarrow> error + date" where
  "tonight env = (if clock_hour env \<ge> 12 then Inr (today env) else sub_one_day (today env))"

definition run_command :: "'f env \<Rightarrow> date \<Rightarrow> string" where
  "run_command env d =
     replace [CHR 0x5C] ''/'' (''python -m omegalambda run '' @ current_path env @ ''/'' @ strftime_Ymd d)"

definition saved_dialog :: "string \<Rightarrow> dialog_thread" where
  "saved_dialog command =
     DialogThread ''Saved all targets into folders''
       (''All targets have been saved and placed into folders by date.\<newline>''
        @ ''        The following command to run OmegaLambda on tonight's folder has been copied to the clipboard:\<newline>''
        @ ''        '' @ command @ ''\<newline>''
        @ ''        Click Quit to exit the program.\<newline>        '')"

text \<open>
  \<open>save_all_auto_folders\<close>. The directory \<open>current_path\<close> of the command is a variable of
  the loop body, unbound when the loop did not run.
\<close>

definition save_all_auto_folders ::
  "(string \<Rightarrow> 'f option) \<Rightarrow> 'f env \<Rightarrow> 'f state \<Rightarrow> error + 'f state" where
  "save_all_auto_folders float_of env st =
     e_bind (save_all_auto_folders_loop float_of env (drop 1 (toi_list st)) st) (\<lambda>st1.
     e_bind (tonight env) (\<lambda>d.
     e_bind (if drop 1 (toi_list st) = [] then Inl UnboundLocalError else Inr (run_command env d))
       (\<lambda>command.
     Inr (st1\<lparr>clipboard := command, dialog_2 := Some (saved_dialog command)\<rparr>))))"

section \<open>The script\<close>

text \<open>The widgets and globals as the script creates them, on an empty directory.\<close>

definition init_state :: "'f state" where
  "init_state =
     \<lparr>name_box = [], ra_box = [], dec_box = [], start_time_box = [], end_time_box = [],
      filter_box = [], n_exposures_box = [], exposure_time_box = [],
      selection = [], camera = [],
      satellite_tracking = 0, satellite_tracking_mode = 0, self_guide = 0, guide = 0,
      cycle_filter = 0, initial_focus = 1,
      SATELLITES = {}, dialog = None, dialog_2 = None, toi_list = [], clipboard = [],
      files = Map.empty, dirs = {}, net_log = []\<rparr>"

text \<open>
  The body of the script up to the main loop: the catalogs are loaded, the list is made
  and, unless it is empty (the script then stops), its first entry is selected and shown.
\<close>

definition startup :: "'f env \<Rightarrow> 'f state \<Rightarrow> error + 'f state" where
  "startup env st =
     e_bind (check_toi env st) (\<lambda>st1.
     e_bind (create_list env st1) (\<lambda>l.
     if l = [] then Inr (st1\<lparr>toi_list := l\<rparr>)
     else target_grab env (st1\<lparr>toi_list := ''Observation List'' # l, selection := hd l\<rparr>)))"

section \<open>Example inputs\<close>

text \<open>
  A schedule sheet of two nights, an ephemeris table and a TLE feed, used to run the
  functions on concrete inputs. \<open>example_float\<close> stands for \<open>float()\<close> on plain digit
  strings.
\<close>

definition example_float :: "string \<Rightarrow> nat option" where
  "example_float s = (if digits_ok s then Some (nat_of_digits s) else None)"

definition no_cells :: "string \<Rightarrow> cell" where
  "no_cells c = CNaN"

definition example_row_toi :: "string \<Rightarrow> cell" where
  "example_row_toi = no_cells(''NoD'' := CStr ''2024-06-01'', ''Target'' := CStr ''TOI 1234.01'',
     ''Start'' := CStr ''23:00'', ''End'' := CStr ''05:00'', ''Filter'' := CStr ''Ha, v, R'',
     ''Exp'' := CStr ''30s,60s'', ''Satellite Tracking'' := CInt 0, ''Tracking Mode'' := CInt 0)"

definition example_row_iss :: "string \<Rightarrow> cell" where
  "example_row_iss = no_cells(''NoD'' := CStr ''2024-06-02'', ''Target'' := CStr ''iss'',
     ''Start'' := CStr ''21:30'', ''End'' := CStr ''22:00'', ''Filter'' := CStr ''r'',
     ''Exp'' := CInt 1, ''Satellite Tracking'' := CInt 1, ''Tracking Mode'' := CInt 2)"

definition example_sheet :: dataframe where
  "example_sheet =
     \<lparr>columns = [''NoD'', ''Target'', ''Start'', ''End'', ''Filter'', ''Exp'',
                 ''Satellite Tracking'', ''Tracking Mode''],
      rows = [example_row_toi, example_row_iss]\<rparr>"

definition example_chart :: dataframe where
  "example_chart =
     \<lparr>columns = [''TOI'', ''RA'', ''Dec''],
      rows = [no_cells(''TOI'' := CStr ''1234.01'', ''RA'' := CStr ''10:00:00'',
                       ''Dec'' := CStr ''+20:00:00'')]\<rparr>"

definition example_tles :: string where
  "example_tles = ''ISS (ZARYA)\<newline>1 25544U 98067A\<newline>2 25544  51.6400\<newline>''"

definition example_env :: "nat env" where
  "example_env =
     \<lparr>now = 1000, today = Date 2024 6 1, clock_hour = 15, tm_isdst = 1, current_path = ''C:/obs'',
      google_sheet_response = Some (Table example_sheet),
      transit_site_response = Some (Table example_chart),
      celestrak_response = Some example_tles\<rparr>"

text \<open>The state of the script after its start in \<open>example_env\<close>, before the form is filled.\<close>

definition example_state :: "nat state" where
  "example_state =
     \<lparr>name_box = [], ra_box = [], dec_box = [], start_time_box = [], end_time_box = [],
      filter_box = [], n_exposures_box = [], exposure_time_box = [],
      selection = ''2024-06-01: TOI1234-01_23:00_30s,60s_Ha, v, R_#0'', camera = [],
      satellite_tracking = 0, satellite_tracking_mode = 0, self_guide = 0, guide = 0,
      cycle_filter = 0, initial_focus = 1,
      SATELLITES = {''ISS'', ''ISS (ZARYA)''}, dialog = None, dialog_2 = None,
      toi_list = [''Observation List'',
                  ''2024-06-01: TOI1234-01_23:00_30s,60s_Ha, v, R_#0'',
                  ''2024-06-02: iss_21:30_Mode2_1_r_#1''],
      clipboard = [],
      files = [google_path \<mapsto> (Table example_sheet, 1000),
               info_chart_path \<mapsto> (Table example_chart, 1000)],
      dirs = {info_directory}, net_log = [Google_Sheet, Celestrak, Transit_Site]\<rparr>"

text \<open>The form after the first entry of the example has been selected, the ticket that
  \<open>savetxt\<close> then writes, and the state after it.\<close>

definition example_filled :: "nat state" where
  "example_filled =
     example_state\<lparr>name_box := ''TOI1234-01'', ra_box := ''10:00:00'', dec_box := ''+20:00:00'',
       start_time_box := ''2024-06-01 23:00:00'', end_time_box := ''2024-06-02 05:00:00'',
       filter_box := ''Ha, v, R'', n_exposures_box := ''100000'', exposure_time_box := ''30,60'',
       camera := ''CCD'', satellite_tracking := 0, satellite_tracking_mode := 0, self_guide := 1\<rparr>"

definition example_ticket :: "nat ticket" where
  \<open>example_ticket =
     \<lparr>t_name = ''TOI1234-01'', t_ra = Some ''10:00:00'', t_dec = Some ''+20:00:00'',
      t_start_time = ''2024-06-01 23:00:00-04:00'', t_end_time = ''2024-06-02 05:00:00-04:00'',
      t_filter = PStr ''["Ha", "v", "r"]'', t_num = 100000,
      t_exp_time = PList [PFloat 30, PFloat 60], t_camera = ''CCD'',
      t_self_guide = True, t_guide = False, t_cycle_filter = False, t_initial_focus = True,
      t_satellite_tracking = False, t_satellite_tracking_mode = 0\<rparr>\<close>

definition example_saved :: "nat state" where
  "example_saved =
     example_filled\<lparr>files := (files example_filled)
       ([''TOI1234-01_2300_30s,60s_Ha, v, R_#0.json''] \<mapsto> (Ticket example_ticket, 1000))\<rparr>"

text \<open>The same for the second entry, a satellite that the ephemeris table does not have.\<close>

definition example_state_iss :: "nat state" where
  "example_state_iss = example_state\<lparr>selection := ''2024-06-02: iss_21:30_Mode2_1_r_#1''\<rparr>"

definition example_filled_iss :: "nat state" where
  "example_filled_iss =
     example_state_iss\<lparr>name_box := ''iss'', ra_box := ''None'', dec_box := ''None'',
       start_time_box := ''2024-06-02 21:30:00'', end_time_box := ''2024-06-02 22:00:00'',
       filter_box := ''r'', n_exposures_box := ''100000'', exposure_time_box := ''1'',
       camera := ''CCD'', satellite_tracking := 1, satellite_tracking_mode := 2, self_guide := 0\<rparr>"

definition example_ticket_iss :: "nat ticket" where
  "example_ticket_iss =
     \<lparr>t_name = ''iss'', t_ra = None, t_dec = None,
      t_start_time = ''2024-06-02 21:30:00-04:00'', t_end_time = ''2024-06-02 22:00:00-04:00'',
      t_filter = PStr ''r'', t_num = 100000,
      t_exp_time = PFloat 1, t_camera = ''CCD'',
      t_self_guide = False, t_guide = False, t_cycle_filter = False, t_initial_focus = True,
      t_satellite_tracking = True, t_satellite_tracking_mode = 2\<rparr>"

definition example_saved_iss :: "nat state" where
  "example_saved_iss =
     example_filled_iss\<lparr>files := (files example_filled_iss)
       ([''iss_2130_Mode2_1_r_#1.json''] \<mapsto> (Ticket example_ticket_iss, 1000))\<rparr>"



text \<open>A sheet with twelve future rows, as the only file.\<close>

definition example_sheet_12 :: dataframe where
  "example_sheet_12 =
     \<lparr>columns = [''NoD'', ''Target'', ''Start'', ''End'', ''Filter'', ''Exp'',
                 ''Satellite Tracking'', ''Tracking Mode''],
      rows = [example_row_iss, example_row_iss, example_row_iss, example_row_iss,
              example_row_iss, example_row_iss, example_row_iss, example_row_iss,
              example_row_iss, example_row_iss, example_row_iss, example_row_iss]\<rparr>"

definition example_state_12 :: "nat state" where
  "example_state_12 = init_state\<lparr>files := [google_path \<mapsto> (Table example_sheet_12, 1000)]\<rparr>"


section \<open>Properties\<close>

subsection \<open>Exceptions and strings\<close>

lemma e_bind_Inr [simp]: "e_bind (Inr x) f = f x"
  by (simp add: e_bind_def)

lemma e_bind_Inl [simp]: "e_bind (Inl e) f = Inl e"
  by (simp add: e_bind_def)

lemma e_bind_eq_Inr: "e_bind m f = Inr y \<longleftrightarrow> (\<exists>x. m = Inr x \<and> f x = Inr y)"
  by (cases m) simp_all


lemma split_nonempty [simp]: "split sep s \<noteq> []"
  by (induction sep s rule: split.induct) (auto simp: Let_def)





subsection \<open>What \<open>target_grab\<close> and \<open>savetxt\<close> do when they return\<close>

lemma fetch_info_chart_cases:
  assumes "fetch_info_chart env st = Inr st2"
  shows "st2 = st \<or> (\<exists>c. transit_site_response env = Some c \<and>
           st2 = write_file info_chart_path c (now env) (st\<lparr>net_log := net_log st @ [Transit_Site]\<rparr>))"
  using assms
  by (auto simp: fetch_info_chart_def e_bind_eq_Inr requests_get_def
      split: if_splits option.splits)

lemma fetch_info_chart_frame:
  assumes "fetch_info_chart env st = Inr st2"
  shows "st2 = st\<lparr>files := files st2, net_log := net_log st2\<rparr>"
  using fetch_info_chart_cases[OF assms] by (auto simp: write_file_def)

lemma insert_text_empty [simp]: "insert_text i s [] = s"
  by (simp add: insert_text_def)

lemma bound_eq_Inr [simp]: "bound v = Inr x \<longleftrightarrow> v = Some x"
  by (cases v) (simp_all add: bound_def)

text \<open>What a successful \<open>target_grab\<close> has done.\<close>

lemma target_grab_Inr:
  assumes "target_grab env st = Inr st'" and "selection st \<noteq> ''Observation List''"
  obtains r st2 info_csv ra_coord dec_coord begin_s end_s sat mode where
    "read_row (clear_box st) = Inr r"
    "fetch_info_chart env (clear_box st) = Inr st2"
    "read_csv st2 info_chart_path = Inr info_csv"
    "lookup_coords info_csv (r_toi r) = Inr (ra_coord, dec_coord)"
    "resolve_times r = Inr (begin_s, end_s)"
    "r_satellite_tracking_data r = Some sat"
    "r_tracking_mode_data r = Some mode"
    "st' = st\<lparr>name_box := r_target_name r, ra_box := str_opt ra_coord, dec_box := str_opt dec_coord,
              start_time_box := begin_s, end_time_box := end_s, filter_box := r_filter_input r,
              n_exposures_box := str_int 100000,
              exposure_time_box := replace ''s'' '''' (r_exposure r),
              camera := r_selected_cam r, satellite_tracking := sat, satellite_tracking_mode := mode,
              self_guide := (if sat \<noteq> 0 then 0 else 1), files := files st2, net_log := net_log st2\<rparr>"
proof -
  from assms obtain r st2 info_csv ra_coord dec_coord begin_s end_s sat mode where
    a: "read_row (clear_box st) = Inr r"
      "fetch_info_chart env (clear_box st) = Inr st2"
      "read_csv st2 info_chart_path = Inr info_csv"
      "lookup_coords info_csv (r_toi r) = Inr (ra_coord, dec_coord)"
      "resolve_times r = Inr (begin_s, end_s)"
      "r_satellite_tracking_data r = Some sat"
      "r_tracking_mode_data r = Some mode"
    and b: "st' = st2\<lparr>name_box := insert_text 10 (r_target_name r) (name_box st2),
                      ra_box := insert_text 10 (str_opt ra_coord) (ra_box st2),
                      dec_box := insert_text 10 (str_opt dec_coord) (dec_box st2),
                      start_time_box := insert_text 10 begin_s (start_time_box st2),
                      end_time_box := insert_text 10 end_s (end_time_box st2),
                      filter_box := insert_text 10 (r_filter_input r) (filter_box st2),
                      n_exposures_box := insert_text 10 (str_int 100000) (n_exposures_box st2),
                      exposure_time_box := insert_text 10 (replace ''s'' '''' (r_exposure r))
                                             (exposure_time_box st2),
                      camera := r_selected_cam r,
                      satellite_tracking := sat,
                 satellite_tracking_mode := mode,
                 self_guide := (if sat \<noteq> 0 then 0 else 1)\<rparr>"
    unfolding target_grab_def Let_def
    by (auto simp: e_bind_eq_Inr)
  define fs where "fs = files st2"
  define nl where "nl = net_log st2"
  have c: "st2 = (clear_box st)\<lparr>files := fs, net_log := nl\<rparr>"
    unfolding fs_def nl_def by (rule fetch_info_chart_frame[OF a(2)])
  have "st' = st\<lparr>name_box := r_target_name r, ra_box := str_opt ra_coord, dec_box := str_opt dec_coord,
              start_time_box := begin_s, end_time_box := end_s, filter_box := r_filter_input r,
              n_exposures_box := str_int 100000,
              exposure_time_box := replace ''s'' [] (r_exposure r),
              camera := r_selected_cam r, satellite_tracking := sat, satellite_tracking_mode := mode,
              self_guide := (if sat \<noteq> 0 then 0 else 1), files := fs, net_log := nl\<rparr>"
    unfolding b c by (simp add: clear_box_def)
  then have "st' = st\<lparr>name_box := r_target_name r, ra_box := str_opt ra_coord, dec_box := str_opt dec_coord,
              start_time_box := begin_s, end_time_box := end_s, filter_box := r_filter_input r,
              n_exposures_box := str_int 100000,
              exposure_time_box := replace ''s'' [] (r_exposure r),
              camera := r_selected_cam r, satellite_tracking := sat, satellite_tracking_mode := mode,
              self_guide := (if sat \<noteq> 0 then 0 else 1), files := files st2, net_log := net_log st2\<rparr>"
    unfolding fs_def nl_def .
  with a show thesis using that by blast
qed

text \<open>What a successful \<open>savetxt\<close> has done: either the name failed the satellite check and
  no file was touched, or the ticket of the form was written.\<close>

lemma savetxt_cases:
  assumes "savetxt float_of env st = Inr st'"
  shows "(satellite_tracking st \<noteq> 0 \<and> upper (name_box st) \<notin> SATELLITES st
            \<and> st' = (if dialog st = None then st\<lparr>dialog := Some (not_found_dialog (name_box st))\<rparr> else st))
       \<or> ((satellite_tracking st = 0 \<or> upper (name_box st) \<in> SATELLITES st)
            \<and> (\<exists>i j num sel.
                 list_split float_of Filter st = Inr i
               \<and> list_split float_of Exposure_time st = Inr j
               \<and> py_int (n_exposures_box st) = Inr num
               \<and> index (split '': '' (selection st)) 1 = Inr sel
               \<and> st' = write_file (ticket_path sel)
                         (Ticket (observation_ticket (dst_check env) i j num (st\<lparr>dialog := None\<rparr>)))
                         (now env) (st\<lparr>dialog := None\<rparr>)))"
proof (cases "satellite_tracking st \<noteq> 0 \<and> upper (name_box st) \<notin> SATELLITES st")
  case True
  with assms show ?thesis
    by (auto simp: savetxt_def Let_def e_bind_eq_Inr)
next
  case False
  have d: "(if dialog st \<noteq> None then st\<lparr>dialog := None\<rparr> else st) = st\<lparr>dialog := None\<rparr>"
    by simp
  from False assms show ?thesis
    unfolding savetxt_def Let_def d
    by (auto simp: e_bind_eq_Inr)
qed

subsection \<open>Running the example\<close>

lemmas string_defs = startswith_def strip_def is_space_def is_digit_def digit_val_def digit_char_def
  upper_def lower_def upper_char_def lower_char_def upper_letters_def lower_letters_def
  nat_of_digits_def py_int_def str_int_def str_nat.simps index_def

lemmas time_defs = strptime_HM_def strptime_Ymd_def strptime_Ymd_HMS_def match_Ymd_def at_end_def
  re_H_def re_M_def re_S_def re_Y_def re_m_def re_d_def two_def one_def lit_def spaces_def
  all_digits_def checked_date_def valid_date_def days_in_month_def is_leap_def
  add_one_day_def sub_one_day_def date_le_def pad2_def pad4_def str_date_def strftime_Ymd_def
  strftime_HMS_def day_of_def

lemmas file_defs = path_exists_def getmtime_def mkdir_def write_file_def rename_def remove_def
  read_csv_def read_text_def json_load_def requests_get_def
  info_directory_def google_path_def satellites_path_def info_chart_path_def hours_12_def

lemmas sheet_defs = getcell_def column_def str_cell_def int_cell_def truthy_def str_opt_def bound_def

lemmas example_defs = example_env_def example_state_def example_sheet_def example_chart_def
  example_row_toi_def example_row_iss_def no_cells_def example_float_def example_tles_def
  example_state_iss_def

lemmas target_grab_defs = target_grab_def read_row_def clear_box_def fetch_info_chart_def
  lookup_coords_def resolve_times_def insert_text_def

lemmas savetxt_defs = savetxt_def list_split_def dst_check_def observation_ticket_def
  ticket_path_def json_dumps_def json_string_def json_escape_char_def filter_token_def
  py_float_def not_found_dialog_def

lemma target_grab_example: "target_grab example_env example_state = Inr example_filled"
  by (simp add: target_grab_defs example_filled_def Let_def
      string_defs time_defs file_defs sheet_defs example_defs)

lemma savetxt_example: "savetxt example_float example_env example_filled = Inr example_saved"
  by (simp add: savetxt_defs example_filled_def example_saved_def example_ticket_def Let_def
      string_defs file_defs example_defs)

lemma target_grab_example_iss: "target_grab example_env example_state_iss = Inr example_filled_iss"
  by (simp add: target_grab_defs example_filled_iss_def Let_def
      string_defs time_defs file_defs sheet_defs example_defs)

lemma savetxt_example_iss:
  "savetxt example_float example_env example_filled_iss = Inr example_saved_iss"
  by (simp add: savetxt_defs example_filled_iss_def example_saved_iss_def example_ticket_iss_def
      Let_def string_defs file_defs example_defs)

lemma selection_example [simp]:
  "selection example_state \<noteq> ''Observation List''"
  "selection example_state_iss \<noteq> ''Observation List''"
  by (simp_all add: example_defs)

subsection \<open>The filter specification\<close>




subsection \<open>The number of exposures and self guiding\<close>

lemma str_int_100000: "str_int 100000 = ''100000''"
  by (simp add: str_int_def digit_char_def str_nat.simps)

lemma py_int_100000: "py_int ''100000'' = Inr 100000"
  by (simp add: py_int_def strip_def is_space_def is_digit_def nat_of_digits_def digit_val_def)

lemma read_row_example_iss:
  "read_row (clear_box example_state_iss) =
     Inr \<lparr>r_start_date = Date 2024 6 2, r_target_name = ''iss'', r_toi = ''iss'',
          r_obs_start = ''21:30'', r_obs_end = ''22:00'', r_filter_input = ''r'',
          r_exposure = ''1'', r_selected_cam = ''CCD'',
          r_satellite_tracking_data = Some 1, r_tracking_mode_data = Some 2\<rparr>"
  by (simp add: read_row_def clear_box_def Let_def string_defs time_defs file_defs sheet_defs
      example_defs)

text \<open>
  C10. Whatever the schedule sheet holds, a \<open>target_grab\<close> that returns leaves \<open>100000\<close>
  in the box of the number of exposures, and every file that a following \<open>savetxt\<close>
  creates or changes is a ticket whose \<open>num\<close> is 100000. (\<open>save_all\<close> and
  \<open>save_all_auto_folders\<close> run exactly this pair for each entry.)
\<close>

theorem num_exposures_constant:
  assumes "target_grab env st = Inr st1"
    and "selection st \<noteq> ''Observation List''"
    and "savetxt float_of env2 st1 = Inr st2"
  shows "n_exposures_box st1 = ''100000''
       \<and> (\<forall>p. files st2 p \<noteq> files st1 p \<longrightarrow>
              (\<exists>t m. files st2 p = Some (Ticket t, m) \<and> t_num t = 100000))"
proof -
  from assms(1,2) have n: "n_exposures_box st1 = ''100000''"
    by (elim target_grab_Inr; simp add: str_int_100000)
  from savetxt_cases[OF assms(3)] n show ?thesis
    by (auto simp: write_file_def py_int_100000 observation_ticket_def split: if_splits)
qed

theorem num_exposures_constant_witness:
  "target_grab example_env example_state = Inr example_filled
   \<and> selection example_state \<noteq> ''Observation List''
   \<and> savetxt example_float example_env example_filled = Inr example_saved
   \<and> n_exposures_box example_filled = ''100000''
   \<and> (\<exists>t m. files example_saved [''TOI1234-01_2300_30s,60s_Ha, v, R_#0.json''] = Some (Ticket t, m)
              \<and> t_num t = 100000)"
proof -
  note T = num_exposures_constant [OF target_grab_example selection_example(1) savetxt_example]
  have "files example_saved [''TOI1234-01_2300_30s,60s_Ha, v, R_#0.json'']
          \<noteq> files example_filled [''TOI1234-01_2300_30s,60s_Ha, v, R_#0.json'']"
    by (simp add: example_saved_def example_filled_def example_defs file_defs)
  with T[THEN conjunct2, THEN spec, of "[''TOI1234-01_2300_30s,60s_Ha, v, R_#0.json'']"]
    T[THEN conjunct1] target_grab_example savetxt_example
  show ?thesis by simp
qed

text \<open>
  C9. After a \<open>target_grab\<close> that returns, satellite tracking is the integer of the row's
  \<open>Satellite Tracking\<close> cell, self guiding is 0 when that is non-zero and 1 when it is zero,
  and every ticket that a following \<open>savetxt\<close> writes has \<open>self_guide\<close> true exactly when
  \<open>satellite_tracking\<close> is false: never both.
\<close>

theorem self_guide_excludes_tracking:
  assumes "target_grab env st = Inr st1"
    and "selection st \<noteq> ''Observation List''"
    and "read_row (clear_box st) = Inr r"
    and "savetxt float_of env2 st1 = Inr st2"
  shows "r_satellite_tracking_data r = Some (satellite_tracking st1)
       \<and> self_guide st1 = (if satellite_tracking st1 \<noteq> 0 then 0 else 1)
       \<and> (\<forall>p. files st2 p \<noteq> files st1 p \<longrightarrow>
              (\<exists>t m. files st2 p = Some (Ticket t, m)
                     \<and> t_satellite_tracking t = (satellite_tracking st1 \<noteq> 0)
                     \<and> t_self_guide t = (satellite_tracking st1 = 0)))"
proof -
  from assms(1,2,3) have "r_satellite_tracking_data r = Some (satellite_tracking st1)"
    by (elim target_grab_Inr; simp)
  moreover from assms(1,2) have "self_guide st1 = (if satellite_tracking st1 \<noteq> 0 then 0 else 1)"
    by (elim target_grab_Inr; simp)
  ultimately have s: "r_satellite_tracking_data r = Some (satellite_tracking st1)"
    "self_guide st1 = (if satellite_tracking st1 \<noteq> 0 then 0 else 1)"
    by simp_all
  from savetxt_cases[OF assms(4)] s show ?thesis
    by (auto simp: write_file_def observation_ticket_def split: if_splits)
qed

theorem self_guide_excludes_tracking_witness:
  "target_grab example_env example_state_iss = Inr example_filled_iss
   \<and> selection example_state_iss \<noteq> ''Observation List''
   \<and> savetxt example_float example_env example_filled_iss = Inr example_saved_iss
   \<and> satellite_tracking example_filled_iss = 1 \<and> self_guide example_filled_iss = 0
   \<and> (\<exists>t m. files example_saved_iss [''iss_2130_Mode2_1_r_#1.json''] = Some (Ticket t, m)
              \<and> t_satellite_tracking t \<and> \<not> t_self_guide t)"
proof -
  note T = self_guide_excludes_tracking [OF target_grab_example_iss selection_example(2)
      read_row_example_iss savetxt_example_iss]
  have "files example_saved_iss [''iss_2130_Mode2_1_r_#1.json'']
          \<noteq> files example_filled_iss [''iss_2130_Mode2_1_r_#1.json'']"
    by (simp add: example_saved_iss_def example_filled_iss_def example_defs file_defs)
  with T[THEN conjunct2, THEN conjunct2, THEN spec, of "[''iss_2130_Mode2_1_r_#1.json'']"]
    T[THEN conjunct2, THEN conjunct1] T[THEN conjunct1] target_grab_example_iss savetxt_example_iss
  show ?thesis by simp
qed

subsection \<open>The day of a clock time\<close>

lemma digit_roundtrip:
  "c \<in> set all_digits \<Longrightarrow> digit_char (digit_val c) = c \<and> digit_val c < 10"
  by (auto simp: all_digits_def digit_char_def digit_val_def)

lemma pad2_digits:
  assumes "a \<in> set all_digits" and "b \<in> set all_digits"
  shows "pad2 (10 * digit_val a + digit_val b) = [a, b]"
proof -
  from assms have a: "digit_char (digit_val a) = a" "digit_val a < 10"
    and b: "digit_char (digit_val b) = b" "digit_val b < 10"
    by (simp_all add: digit_roundtrip)
  have "digit_char (10 * digit_val a + digit_val b) = digit_char (digit_val b)"
    by (simp add: digit_char_def)
  moreover have "(10 * digit_val a + digit_val b) div 10 = digit_val a"
    using b(2) by simp
  ultimately show ?thesis
    by (simp add: pad2_def a b)
qed

lemma two_SomeD:
  assumes "two A B s = Some (v, r)" and "set A \<subseteq> set all_digits" and "set B \<subseteq> set all_digits"
  shows "\<exists>a b. s = a # b # r \<and> pad2 v = [a, b]"
proof -
  from assms(1) obtain a b where s: "s = a # b # r" "a \<in> set A" "b \<in> set B"
    "v = 10 * digit_val a + digit_val b"
    by (auto simp: two_def split: list.splits if_splits)
  with assms(2,3) have "pad2 v = [a, b]"
    by (auto intro: pad2_digits)
  with s show ?thesis by blast
qed

lemma one_SomeD: "one A s = Some (v, r) \<Longrightarrow> \<exists>a. s = a # r"
  by (auto simp: one_def split: list.splits if_splits)

lemma alts_SomeD:
  "alts ps k s = Some x \<Longrightarrow> \<exists>p\<in>set ps. \<exists>v r. p s = Some (v, r) \<and> k v r = Some x"
  by (induction ps) (auto split: option.splits)

lemma lit_SomeD: "lit c k s = Some x \<Longrightarrow> \<exists>r. s = c # r \<and> k r = Some x"
  by (auto simp: lit_def split: list.splits if_splits)

lemma at_end_InrD: "at_end m = Inr v \<Longrightarrow> m = Some ([], v)"
  by (auto simp: at_end_def split: option.splits if_splits)

text \<open>A clock string of five characters that parses is \<open>HH:MM\<close>, and formatting the parsed
  time gives it back.\<close>

lemma strptime_HM_five:
  assumes "strptime_HM s = Inr (h, m)" and "length s = 5"
  shows "pad2 h @ '':'' @ pad2 m = s"
proof -
  from assms(1) have "alts re_H (\<lambda>h. lit CHR '':'' (alts re_M (\<lambda>m r. Some (r, (h, m))))) s
      = Some ([], (h, m))"
    unfolding strptime_HM_def by (rule at_end_InrD)
  then obtain p v r where p: "p \<in> set re_H" "p s = Some (v, r)"
    and l: "lit CHR '':'' (alts re_M (\<lambda>m r. Some (r, (v, m)))) r = Some ([], (h, m))"
    by (blast dest: alts_SomeD)
  from l obtain r' where r: "r = CHR '':'' # r'"
    and "alts re_M (\<lambda>m r. Some (r, (v, m))) r' = Some ([], (h, m))"
    by (blast dest: lit_SomeD)
  then obtain q w r'' where q: "q \<in> set re_M" "q r' = Some (w, r'')"
    and e: "Some (r'', (v, w)) = Some ([], (h, m))"
    by (blast dest: alts_SomeD)
  from e have [simp]: "r'' = []" "v = h" "w = m" by simp_all
  from p have hh: "(\<exists>a b. s = a # b # r \<and> pad2 v = [a, b]) \<or> (\<exists>a. s = a # r)"
    by (auto simp: re_H_def all_digits_def dest!: two_SomeD one_SomeD)
  from q have mm: "(\<exists>a b. r' = a # b # r'' \<and> pad2 w = [a, b]) \<or> (\<exists>a. r' = a # r'')"
    by (auto simp: re_M_def all_digits_def dest!: two_SomeD one_SomeD)
  from hh mm r assms(2) show ?thesis
    by auto
qed

lemma strftime_HMS_0: "strftime_HMS h m 0 = pad2 h @ '':'' @ pad2 m @ '':00''"
  by (simp add: strftime_HMS_def pad2_def digit_char_def)

lemma day_of_Inr:
  "day_of d h = Inr s \<longleftrightarrow>
     (\<exists>d'. (if h \<le> 12 then add_one_day d else Inr d) = Inr d' \<and> s = str_date d')"
  by (auto simp: day_of_def e_bind_eq_Inr)

lemma read_row_example:
  "read_row (clear_box example_state) =
     Inr \<lparr>r_start_date = Date 2024 6 1, r_target_name = ''TOI1234-01'', r_toi = ''1234.01'',
          r_obs_start = ''23:00'', r_obs_end = ''05:00'', r_filter_input = ''Ha, v, R'',
          r_exposure = ''30s,60s'', r_selected_cam = ''CCD'',
          r_satellite_tracking_data = Some 0, r_tracking_mode_data = Some 0\<rparr>"
  by (simp add: read_row_def clear_box_def Let_def string_defs time_defs file_defs sheet_defs
      example_defs)

lemma strptime_HM_examples:
  "strptime_HM ''23:00'' = Inr (23, 0)" "strptime_HM ''05:00'' = Inr (5, 0)"
  "strptime_HM ''00:30'' = Inr (0, 30)" "strptime_HM ''12:00'' = Inr (12, 0)"
  "strptime_HM ''12:01'' = Inr (12, 1)" "strptime_HM ''23:59'' = Inr (23, 59)"
  by (simp_all add: time_defs string_defs)

text \<open>
  C2. For the row that \<open>target_grab\<close> reads, with night \<open>r_start_date\<close>: a start (or end)
  clock that parses to an hour of at most 12 is put on the day after the night, one with
  a later hour on the night itself, each on its own; the box gets that date, a blank, and
  the clock time as \<open>HH:MM:00\<close>. For a clock string written \<open>HH:MM\<close> that is the string
  itself followed by \<open>:00\<close>.
\<close>

theorem day_rollover:
  assumes "target_grab env st = Inr st1"
    and "selection st \<noteq> ''Observation List''"
    and "read_row (clear_box st) = Inr r"
    and "strptime_HM (r_obs_start r) = Inr (sh, sm)"
    and "strptime_HM (r_obs_end r) = Inr (eh, em)"
  shows "(\<exists>ds de.
            (if sh \<le> 12 then add_one_day (r_start_date r) else Inr (r_start_date r)) = Inr ds
          \<and> (if eh \<le> 12 then add_one_day (r_start_date r) else Inr (r_start_date r)) = Inr de
          \<and> start_time_box st1 = str_date ds @ '' '' @ pad2 sh @ '':'' @ pad2 sm @ '':00''
          \<and> end_time_box st1 = str_date de @ '' '' @ pad2 eh @ '':'' @ pad2 em @ '':00'')
       \<and> (length (r_obs_start r) = 5 \<longrightarrow> pad2 sh @ '':'' @ pad2 sm = r_obs_start r)
       \<and> (length (r_obs_end r) = 5 \<longrightarrow> pad2 eh @ '':'' @ pad2 em = r_obs_end r)"
proof -
  from assms(1,2,3) obtain begin_s end_s where
    t: "resolve_times r = Inr (begin_s, end_s)"
    and b: "start_time_box st1 = begin_s" "end_time_box st1 = end_s"
    by (elim target_grab_Inr; simp)
  from t assms(4,5) obtain ds de where
    "day_of (r_start_date r) sh = Inr ds" "day_of (r_start_date r) eh = Inr de"
    "begin_s = ds @ '' '' @ strftime_HMS sh sm 0" "end_s = de @ '' '' @ strftime_HMS eh em 0"
    by (auto simp: resolve_times_def e_bind_eq_Inr)
  with b have "\<exists>ds de.
            (if sh \<le> 12 then add_one_day (r_start_date r) else Inr (r_start_date r)) = Inr ds
          \<and> (if eh \<le> 12 then add_one_day (r_start_date r) else Inr (r_start_date r)) = Inr de
          \<and> start_time_box st1 = str_date ds @ '' '' @ pad2 sh @ '':'' @ pad2 sm @ '':00''
          \<and> end_time_box st1 = str_date de @ '' '' @ pad2 eh @ '':'' @ pad2 em @ '':00''"
    unfolding day_of_Inr strftime_HMS_0 by auto
  moreover have "length (r_obs_start r) = 5 \<longrightarrow> pad2 sh @ '':'' @ pad2 sm = r_obs_start r"
    using strptime_HM_five[OF assms(4)] by simp
  moreover have "length (r_obs_end r) = 5 \<longrightarrow> pad2 eh @ '':'' @ pad2 em = r_obs_end r"
    using strptime_HM_five[OF assms(5)] by simp
  ultimately show ?thesis by blast
qed

theorem day_rollover_witness:
  "target_grab example_env example_state = Inr example_filled
   \<and> selection example_state \<noteq> ''Observation List''
   \<and> strptime_HM ''23:00'' = Inr (23, 0) \<and> strptime_HM ''05:00'' = Inr (5, 0)
   \<and> add_one_day (Date 2024 6 1) = Inr (Date 2024 6 2)
   \<and> start_time_box example_filled = str_date (Date 2024 6 1) @ '' 23:00:00''
   \<and> end_time_box example_filled = str_date (Date 2024 6 2) @ '' 05:00:00''"
  using day_rollover [OF target_grab_example selection_example(1) read_row_example, of 23 0 5 0]
    target_grab_example
  by (simp add: strptime_HM_examples add_one_day_def days_in_month_def example_filled_def
      str_date_def pad2_def pad4_def digit_char_def)

subsection \<open>A target that the ephemeris table does not have\<close>







subsection \<open>The satellite catalog and the satellite check\<close>















subsection \<open>The local copies of the remote tables\<close>










end
